theory Spec2Isabelle
  imports Complex_Main "HOL-Library.Multiset"
begin

section \<open>Data model (the mongoose schemas of server.js)\<close>

text \<open>
  Field names follow the schemas. Where two schemas share a field name, or a name is
  taken in HOL, the field carries a short prefix: \<open>pl_\<close> for a room's players,
  \<open>q_\<close> for the Question collection, \<open>f_\<close> for what \<open>fetchQuestions\<close> returns,
  \<open>api_\<close> for the records of the external question API. JavaScript numbers are
  modelled as \<open>int\<close>, dates as \<open>nat\<close> (milliseconds), an absent date as \<open>None\<close>.
\<close>

datatype status = waiting | in_progress | completed

record player =
  pl_id :: string
  pl_name :: string
  ready :: bool
  pl_score :: int

record room =
  code :: string
  host :: string
  category :: string
  quizCount :: int
  maxPlayers :: int
  players :: "player list"
  isPublic :: bool
  status :: status
  createdAt :: nat

record gquestion =
  qtext :: string
  options :: "string list"
  correctAnswer :: string
  timeLimit :: int

record answer_rec =
  questionIndex :: int
  answer :: string
  isCorrect :: bool
  timeTaken :: int

record score_entry =
  playerId :: string
  playerName :: string
  score :: int
  answers :: "answer_rec list"

record game =
  roomCode :: string
  questions :: "gquestion list"
  currentQuestion :: int
  scores :: "score_entry list"
  startedAt :: nat
  endedAt :: "nat option"

text \<open>The two collections the handlers read and write, in the store's natural order.\<close>

record store =
  rooms :: "room list"
  games :: "game list"

section \<open>Events, errors and handler results\<close>

text \<open>
  The payload of every \<open>emit\<close> of server.js, field by field. An emit is a pair of the
  channel (a room code, or the host's id for \<open>canStartGame\<close>) and the payload.
  \<open>game.questions[i]\<close> is \<open>undefined\<close> out of range, hence the option.
\<close>

datatype payload =
    RoomUpdated room
  | CanStartGame
  | GameStarted int "gquestion option" int
  | NextQuestion int "gquestion option"
  | AnswerReceived string int bool
  | GameEnded "score_entry list"
  | GameError string

type_synonym emit = "string \<times> payload"

datatype error = TypeError | FetchFailed

text \<open>What a socket handler leaves behind: the store, the emits in order, and the errors
  its \<open>catch\<close> branch wrote to the console.\<close>

record result =
  db :: store
  emitted :: "emit list"
  logged :: "error list"

definition silent :: "store \<Rightarrow> result" where
  "silent st = \<lparr>db = st, emitted = [], logged = []\<rparr>"

section \<open>Array and document helpers\<close>

text \<open>\<open>xs[i]\<close> for a JavaScript number \<open>i\<close>: \<open>undefined\<close> outside \<open>0 .. length - 1\<close>.\<close>

definition elemAt :: "'a list \<Rightarrow> int \<Rightarrow> 'a option" where
  "elemAt xs i = (if 0 \<le> i \<and> i < int (length xs) then Some (xs ! nat i) else None)"

text \<open>
  \<open>findOne\<close>/\<open>Array.find\<close> return the first match (\<open>List.find\<close>). The document found is
  then mutated and saved; the stored list changes at the position of that first match.
\<close>

fun updateFirst :: "('a \<Rightarrow> bool) \<Rightarrow> ('a \<Rightarrow> 'a) \<Rightarrow> 'a list \<Rightarrow> 'a list" where
  "updateFirst P f [] = []"
| "updateFirst P f (x # xs) = (if P x then f x # xs else x # updateFirst P f xs)"

definition saveGame :: "game \<Rightarrow> store \<Rightarrow> store" where
  "saveGame g st = st\<lparr>games := updateFirst (\<lambda>x. roomCode x = roomCode g) (\<lambda>_. g) (games st)\<rparr>"

definition saveRoom :: "room \<Rightarrow> store \<Rightarrow> store" where
  "saveRoom r st = st\<lparr>rooms := updateFirst (\<lambda>x. code x = code r) (\<lambda>_. r) (rooms st)\<rparr>"

section \<open>submitAnswer (server.js lines 356-427)\<close>

text \<open>
  The handler's arguments are the authenticated user id and the event's fields;
  \<open>questionIndex\<close> and \<open>timeTaken\<close> are taken to be integers, as the Game schema
  declares them. \<open>Math.floor(timeTaken / 1000)\<close> is then \<open>tt div 1000\<close>, which rounds
  towards minus infinity as \<open>Math.floor\<close> does.
\<close>

definition timeBonus :: "int \<Rightarrow> int" where
  "timeBonus tt = max 0 (10 - tt div 1000)"

text \<open>Lines 371-382: push the answer onto the player's entry, add the points when correct.\<close>

definition recordAnswer :: "int \<Rightarrow> string \<Rightarrow> bool \<Rightarrow> int \<Rightarrow> score_entry \<Rightarrow> score_entry" where
  "recordAnswer qi ans ok tt ps =
     (let ps1 = ps\<lparr>answers := answers ps @
                  [\<lparr>questionIndex = qi, answer = ans, isCorrect = ok, timeTaken = tt\<rparr>]\<rparr>
      in if ok then ps1\<lparr>score := score ps1 + (100 + timeBonus tt * 10)\<rparr> else ps1)"

text \<open>Lines 368-382 on the game document: \<open>isCorrect\<close> is the strict comparison with
  the stored answer, and the entry changed is the one \<open>find\<close> returned.\<close>

definition pushAnswer :: "string \<Rightarrow> int \<Rightarrow> string \<Rightarrow> int \<Rightarrow> gquestion \<Rightarrow> game \<Rightarrow> game" where
  "pushAnswer uid qi ans tt q g =
     g\<lparr>scores := updateFirst (\<lambda>s. playerId s = uid)
                    (recordAnswer qi ans (correctAnswer q = ans) tt) (scores g)\<rparr>"

text \<open>Line 394: every score entry has some answer for the submitted index.\<close>

definition allAnswered :: "game \<Rightarrow> int \<Rightarrow> bool" where
  "allAnswered g qi = list_all (\<lambda>s. list_ex (\<lambda>a. questionIndex a = qi) (answers s)) (scores g)"

text \<open>Line 420: \<open>scores.sort((a, b) => b.score - a.score)\<close>, a stable sort, highest first.\<close>

definition sortScores :: "score_entry list \<Rightarrow> score_entry list" where
  "sortScores ss = sort_key (\<lambda>s. - score s) ss"

text \<open>Lines 393-423: the barrier, run on the game as saved with the new answer.\<close>

definition barrier :: "nat \<Rightarrow> string \<Rightarrow> int \<Rightarrow> game \<Rightarrow> store \<Rightarrow> store \<times> emit list" where
  "barrier now rc qi g st =
     (if allAnswered g qi then
        (if currentQuestion g < int (length (questions g)) - 1 then
           (let g' = g\<lparr>currentQuestion := currentQuestion g + 1\<rparr>
            in (saveGame g' st,
                [(rc, NextQuestion (currentQuestion g') (elemAt (questions g') (currentQuestion g')))]))
         else
           (let g' = g\<lparr>endedAt := Some now\<rparr>;
                st1 = saveGame g' st;
                st2 = (case find (\<lambda>r. code r = rc) (rooms st1) of
                         None \<Rightarrow> st1
                       | Some r \<Rightarrow> saveRoom (r\<lparr>status := completed\<rparr>) st1)
            in (st2, [(rc, GameEnded (sortScores (scores g')))])))
      else (st, []))"

text \<open>The four early returns, then the read of \<open>question.correctAnswer\<close>, which throws
  on an index outside the questions; the \<open>catch\<close> logs it and nothing was saved.\<close>

definition submitAnswer :: "nat \<Rightarrow> string \<Rightarrow> string \<Rightarrow> int \<Rightarrow> string \<Rightarrow> int \<Rightarrow> store \<Rightarrow> result" where
  "submitAnswer now uid rc qi ans tt st =
     (case find (\<lambda>g. roomCode g = rc) (games st) of
        None \<Rightarrow> silent st
      | Some g \<Rightarrow>
          if endedAt g \<noteq> None then silent st
          else
            (case find (\<lambda>s. playerId s = uid) (scores g) of
               None \<Rightarrow> silent st
             | Some playerScore \<Rightarrow>
                 (case find (\<lambda>a. questionIndex a = qi) (answers playerScore) of
                    Some existingAnswer \<Rightarrow> silent st
                  | None \<Rightarrow>
                      (case elemAt (questions g) qi of
                         None \<Rightarrow> \<lparr>db = st, emitted = [], logged = [TypeError]\<rparr>
                       | Some question \<Rightarrow>
                           (let g1 = pushAnswer uid qi ans tt question g;
                                st1 = saveGame g1 st;
                                (st2, evs) = barrier now rc qi g1 st1
                            in \<lparr>db = st2,
                                emitted = (rc, AnswerReceived uid qi (correctAnswer question = ans))
                                          # evs,
                                logged = []\<rparr>)))))"

section \<open>fetchQuestions and its helpers (server.js lines 103-163)\<close>

record qdoc =
  q_category :: string
  difficulty :: string
  question :: string
  q_correctAnswer :: string
  incorrectAnswers :: "string list"
  q_source :: string

record fetched =
  f_text :: string
  f_correctAnswer :: string
  f_options :: "string list"
  f_category :: string
  f_difficulty :: string

record api_result =
  api_question :: string
  correct_answer :: string
  incorrect_answers :: "string list"
  api_category :: string
  api_difficulty :: string

text \<open>
  What the handlers take from outside the process: the Question collection, the random
  draw of \<open>$sample\<close> (\<open>None\<close> when the store rejects the query), the answer of the
  external API to \<open>amount\<close> and \<open>category\<close> (\<open>None\<close> when the request or the read of
  \<open>response.data.results\<close> throws), and the permutation \<open>shuffleArray\<close>'s random
  comparator produces.
\<close>

record env =
  questionDocs :: "qdoc list"
  sample :: "qdoc list \<Rightarrow> int \<Rightarrow> qdoc list option"
  apiGet :: "int \<Rightarrow> int \<Rightarrow> api_result list option"
  shuffle :: "string list \<Rightarrow> string list"

text \<open>\<open>text.replace(/pat/g, rep)\<close> for a literal, non-empty pattern: leftmost matches,
  not overlapping. The counter skips the rest of a pattern just replaced.\<close>

fun replaceFrom :: "nat \<Rightarrow> string \<Rightarrow> string \<Rightarrow> string \<Rightarrow> string" where
  "replaceFrom k pat rep [] = []"
| "replaceFrom (Suc k) pat rep (c # cs) = replaceFrom k pat rep cs"
| "replaceFrom 0 pat rep (c # cs) =
     (if take (length pat) (c # cs) = pat
      then rep @ replaceFrom (length pat - 1) pat rep cs
      else c # replaceFrom 0 pat rep cs)"

definition replaceAll :: "string \<Rightarrow> string \<Rightarrow> string \<Rightarrow> string" where
  "replaceAll pat rep s = replaceFrom 0 pat rep s"

definition decodeHtmlEntities :: "string \<Rightarrow> string" where
  "decodeHtmlEntities t =
     replaceAll ''&#039;'' [CHR 0x27]
       (replaceAll ''&gt;'' ''>''
         (replaceAll ''&lt;'' ''<''
           (replaceAll ''&amp;'' ''&''
             (replaceAll ''&quot;'' [CHR 0x22] t))))"

text \<open>The lookup table of lines 153-163; a category that is not one of its keys gives 0
  (keys inherited from \<open>Object.prototype\<close> are left out of the model).\<close>

definition getCategoryId :: "string \<Rightarrow> int" where
  "getCategoryId c =
     (if c = ''General Knowledge'' then 9
      else if c = ''Science'' then 17
      else if c = ''History'' then 23
      else if c = ''Movies'' then 11
      else if c = ''Sports'' then 21
      else 0)"

text \<open>The \<open>$project\<close> stage: the options are the correct answer, then the incorrect ones.\<close>

definition project :: "qdoc \<Rightarrow> fetched" where
  "project d =
     \<lparr>f_text = question d, f_correctAnswer = q_correctAnswer d,
      f_options = [q_correctAnswer d] @ incorrectAnswers d,
      f_category = q_category d, f_difficulty = difficulty d\<rparr>"

definition aggregate :: "env \<Rightarrow> string \<Rightarrow> int \<Rightarrow> fetched list option" where
  "aggregate e cat cnt =
     map_option (map project)
       (sample e (filter (\<lambda>d. q_category d = cat) (questionDocs e)) cnt)"

definition fromApi :: "env \<Rightarrow> api_result \<Rightarrow> fetched" where
  "fromApi e q =
     \<lparr>f_text = decodeHtmlEntities (api_question q),
      f_correctAnswer = decodeHtmlEntities (correct_answer q),
      f_options = shuffle e (map decodeHtmlEntities (incorrect_answers q)
                              @ [decodeHtmlEntities (correct_answer q)]),
      f_category = api_category q, f_difficulty = api_difficulty q\<rparr>"

text \<open>\<open>xs.slice(0, n)\<close>: a negative \<open>n\<close> counts from the end.\<close>

definition slice0 :: "'a list \<Rightarrow> int \<Rightarrow> 'a list" where
  "slice0 xs n = (if n < 0 then take (nat (int (length xs) + n)) xs else take (nat n) xs)"

definition fetchQuestions :: "env \<Rightarrow> string \<Rightarrow> int \<Rightarrow> error + fetched list" where
  "fetchQuestions e cat cnt =
     (case aggregate e cat cnt of
        None \<Rightarrow> Inl FetchFailed
      | Some qs \<Rightarrow>
          if int (length qs) < cnt then
            (case apiGet e cnt (getCategoryId cat) of
               None \<Rightarrow> Inl FetchFailed
             | Some results \<Rightarrow> Inr (slice0 (qs @ map (fromApi e) results) cnt))
          else Inr qs)"

section \<open>startGame and the socket handlers that call it (lines 318-354, 435-475)\<close>

definition newGame :: "nat \<Rightarrow> room \<Rightarrow> fetched list \<Rightarrow> game" where
  "newGame now r qs =
     \<lparr>roomCode = code r,
      questions = map (\<lambda>q. \<lparr>qtext = f_text q, options = f_options q,
                             correctAnswer = f_correctAnswer q, timeLimit = 15000\<rparr>) qs,
      currentQuestion = 0,
      scores = map (\<lambda>p. \<lparr>playerId = pl_id p, playerName = pl_name p,
                          score = 0, answers = []\<rparr>) (players r),
      startedAt = now,
      endedAt = None\<rparr>"

text \<open>The room passed in is a document found by its code, so saving it writes the first
  room of that code. A new Game document goes to the end of its collection.\<close>

definition startGame :: "env \<Rightarrow> nat \<Rightarrow> room \<Rightarrow> store \<Rightarrow> result" where
  "startGame e now r st =
     (case fetchQuestions e (category r) (quizCount r) of
        Inl err \<Rightarrow>
          \<lparr>db = st, emitted = [(code r, GameError ''Failed to start game'')], logged = [err]\<rparr>
      | Inr qs \<Rightarrow>
          (let g = newGame now r qs;
               st1 = st\<lparr>games := games st @ [g]\<rparr>;
               st2 = saveRoom (r\<lparr>status := in_progress\<rparr>) st1
           in \<lparr>db = st2,
               emitted = [(code r, GameStarted 0 (elemAt (questions g) 0)
                                     (int (length (questions g))))],
               logged = []\<rparr>))"

text \<open>\<open>playerReady\<close> calls \<open>startGame\<close> without awaiting it; the model runs the call to
  its end before the handler returns, with no other handler in between.\<close>

definition playerReady :: "env \<Rightarrow> nat \<Rightarrow> string \<Rightarrow> string \<Rightarrow> bool \<Rightarrow> store \<Rightarrow> result" where
  "playerReady e now uid rc isReady st =
     (case find (\<lambda>r. code r = rc) (rooms st) of
        None \<Rightarrow> silent st
      | Some r \<Rightarrow>
          (case find (\<lambda>p. pl_id p = uid) (players r) of
             None \<Rightarrow> silent st
           | Some p \<Rightarrow>
               (let r1 = r\<lparr>players := updateFirst (\<lambda>p. pl_id p = uid)
                                          (\<lambda>p. p\<lparr>ready := isReady\<rparr>) (players r)\<rparr>;
                    st1 = saveRoom r1 st;
                    ev1 = (rc, RoomUpdated r1)
                in if list_all ready (players r1) \<and> length (players r1) \<ge> 1 then
                     (if length (players r1) = 1 then
                        (let res = startGame e now r1 st1
                         in res\<lparr>emitted := ev1 # emitted res\<rparr>)
                      else \<lparr>db = st1, emitted = [ev1, (host r1, CanStartGame)], logged = []\<rparr>)
                   else \<lparr>db = st1, emitted = [ev1], logged = []\<rparr>)))"

definition onStartGame :: "env \<Rightarrow> nat \<Rightarrow> string \<Rightarrow> string \<Rightarrow> store \<Rightarrow> result" where
  "onStartGame e now uid rc st =
     (case find (\<lambda>r. code r = rc) (rooms st) of
        None \<Rightarrow> silent st
      | Some r \<Rightarrow>
          if host r = uid \<and> status r = waiting then startGame e now r st else silent st)"

section \<open>The room routes (lines 166-190, 205-276)\<close>

datatype response = Json room | Failure nat string

record reply =
  rdb :: store
  remitted :: "emit list"
  response :: response

text \<open>\<open>Number.prototype.toString\<close> on an integer: its decimal digits.\<close>

definition digitChar :: "nat \<Rightarrow> char" where
  "digitChar d = ''0123456789'' ! d"

function digits :: "nat \<Rightarrow> string" where
  "digits n = (if n < 10 then [digitChar n] else digits (n div 10) @ [digitChar (n mod 10)])"
  by pat_completeness auto
termination
  by (relation "measure (\<lambda>n. n)") auto

declare digits.simps [simp del]

definition toString :: "int \<Rightarrow> string" where
  "toString i = (if i < 0 then CHR ''-'' # digits (nat (- i)) else digits (nat i))"

text \<open>Lines 168 and 217, for a draw \<open>rnd\<close> of \<open>Math.random()\<close>.\<close>

definition newCode :: "real \<Rightarrow> string" where
  "newCode rnd = toString \<lfloor>1000 + rnd * 9000\<rfloor>"

definition newPlayer :: "string \<Rightarrow> string \<Rightarrow> player" where
  "newPlayer uid pname = \<lparr>pl_id = uid, pl_name = pname, ready = False, pl_score = 0\<rparr>"

definition createRoom ::
  "real \<Rightarrow> nat \<Rightarrow> string \<Rightarrow> string \<Rightarrow> int \<Rightarrow> int \<Rightarrow> string \<Rightarrow> bool \<Rightarrow> store \<Rightarrow> reply" where
  "createRoom rnd now uid cat qcount maxp pname pub st =
     (let r = \<lparr>code = newCode rnd, host = uid, category = cat, quizCount = qcount,
               maxPlayers = maxp, players = [newPlayer uid pname], isPublic = pub,
               status = waiting, createdAt = now\<rparr>
      in \<lparr>rdb = st\<lparr>rooms := rooms st @ [r]\<rparr>, remitted = [], response = Json r\<rparr>)"

text \<open>The query of line 208; \<open>'players.1': {$exists: false}\<close> holds of a room with fewer
  than two players.\<close>

definition quickMatchQuery :: "room \<Rightarrow> bool" where
  "quickMatchQuery r \<longleftrightarrow>
     isPublic r \<and> category r = ''Random'' \<and> status r = waiting \<and> length (players r) < 2"

definition quickMatch :: "real \<Rightarrow> nat \<Rightarrow> string \<Rightarrow> string \<Rightarrow> store \<Rightarrow> reply" where
  "quickMatch rnd now uid pname st =
     (case find quickMatchQuery (rooms st) of
        None \<Rightarrow>
          (let r = \<lparr>code = newCode rnd, host = uid, category = ''Random'', quizCount = 5,
                    maxPlayers = 2, players = [newPlayer uid pname], isPublic = True,
                    status = waiting, createdAt = now\<rparr>
           in \<lparr>rdb = st\<lparr>rooms := rooms st @ [r]\<rparr>, remitted = [], response = Json r\<rparr>)
      | Some r \<Rightarrow>
          (let r1 = r\<lparr>players := players r @ [newPlayer uid pname]\<rparr>
           in \<lparr>rdb = st\<lparr>rooms := updateFirst quickMatchQuery (\<lambda>_. r1) (rooms st)\<rparr>,
               remitted = [], response = Json r1\<rparr>))"

definition joinRoom :: "string \<Rightarrow> string \<Rightarrow> string \<Rightarrow> store \<Rightarrow> reply" where
  "joinRoom uid pname c st =
     (case find (\<lambda>r. code r = c) (rooms st) of
        None \<Rightarrow> \<lparr>rdb = st, remitted = [], response = Failure 404 ''Room not found''\<rparr>
      | Some r \<Rightarrow>
          if int (length (players r)) \<ge> maxPlayers r then
            \<lparr>rdb = st, remitted = [], response = Failure 400 ''Room is full''\<rparr>
          else if status r \<noteq> waiting then
            \<lparr>rdb = st, remitted = [], response = Failure 400 ''Game has already started''\<rparr>
          else
            (let r1 = r\<lparr>players := players r @ [newPlayer uid pname]\<rparr>
             in \<lparr>rdb = saveRoom r1 st, remitted = [(code r1, RoomUpdated r1)],
                 response = Json r1\<rparr>))"

section \<open>Concrete states used to exercise the theorems\<close>

definition exQuestions :: "gquestion list" where
  "exQuestions =
     [\<lparr>qtext = ''Capital of France?'', options = [''Paris'', ''Rome'', ''Bern'', ''Oslo''],
       correctAnswer = ''Paris'', timeLimit = 15000\<rparr>,
      \<lparr>qtext = ''2 + 2?'', options = [''4'', ''3'', ''5'', ''22''],
       correctAnswer = ''4'', timeLimit = 15000\<rparr>,
      \<lparr>qtext = ''Largest planet?'', options = [''Jupiter'', ''Mars'', ''Venus'', ''Earth''],
       correctAnswer = ''Jupiter'', timeLimit = 15000\<rparr>]"

definition exRoom :: room where
  "exRoom = \<lparr>code = ''1234'', host = ''alice'', category = ''Science'', quizCount = 3,
     maxPlayers = 2,
     players = [\<lparr>pl_id = ''alice'', pl_name = ''Alice'', ready = True, pl_score = 0\<rparr>,
                \<lparr>pl_id = ''bob'', pl_name = ''Bob'', ready = True, pl_score = 0\<rparr>],
     isPublic = False, status = in_progress, createdAt = 1\<rparr>"

text \<open>A two-player game on its first question, nobody has answered.\<close>

definition exGame :: game where
  "exGame = \<lparr>roomCode = ''1234'', questions = exQuestions, currentQuestion = 0,
     scores = [\<lparr>playerId = ''alice'', playerName = ''Alice'', score = 0, answers = []\<rparr>,
               \<lparr>playerId = ''bob'', playerName = ''Bob'', score = 0, answers = []\<rparr>],
     startedAt = 2, endedAt = None\<rparr>"


text \<open>The same game once alice has answered question 0.\<close>

definition exAnswered :: store where
  "exAnswered = \<lparr>rooms = [exRoom],
     games = [exGame\<lparr>scores :=
       [\<lparr>playerId = ''alice'', playerName = ''Alice'', score = 200,
         answers = [\<lparr>questionIndex = 0, answer = ''Paris'', isCorrect = True, timeTaken = 500\<rparr>]\<rparr>,
        \<lparr>playerId = ''bob'', playerName = ''Bob'', score = 0, answers = []\<rparr>]\<rparr>]\<rparr>"



definition exDocs :: "qdoc list" where
  "exDocs =
     [\<lparr>q_category = ''Science'', difficulty = ''easy'', question = ''Largest planet?'',
       q_correctAnswer = ''Jupiter'', incorrectAnswers = [''Mars'', ''Venus'', ''Earth''],
       q_source = ''opentdb''\<rparr>,
      \<lparr>q_category = ''Science'', difficulty = ''easy'', question = ''H2O is?'',
       q_correctAnswer = ''Water'', incorrectAnswers = [''Salt'', ''Gold'', ''Air''],
       q_source = ''opentdb''\<rparr>,
      \<lparr>q_category = ''History'', difficulty = ''hard'', question = ''Year of Hastings?'',
       q_correctAnswer = ''1066'', incorrectAnswers = [''1215'', ''1492'', ''1789''],
       q_source = ''opentdb''\<rparr>]"

definition exApi :: "api_result list" where
  "exApi =
     [\<lparr>api_question = ''Who wrote &quot;Hamlet&quot;?'', correct_answer = ''Shakespeare'',
       incorrect_answers = [''Marlowe'', ''Jonson &amp; Co'', ''Kyd''],
       api_category = ''Science'', api_difficulty = ''easy''\<rparr>]"

text \<open>An environment whose draw takes the first documents, whose API has one question to
  give whatever the amount asked, and whose shuffle reverses.\<close>

definition exEnv :: env where
  "exEnv = \<lparr>questionDocs = exDocs,
            sample = (\<lambda>ds n. if n < 0 then None else Some (take (nat n) ds)),
            apiGet = (\<lambda>n c. Some exApi),
            shuffle = rev\<rparr>"

text \<open>An environment with no stored question and an API that answers with no result.\<close>

definition exEmptyEnv :: env where
  "exEmptyEnv = \<lparr>questionDocs = [],
            sample = (\<lambda>ds n. if n < 0 then None else Some (take (nat n) ds)),
            apiGet = (\<lambda>n c. Some []),
            shuffle = rev\<rparr>"

text \<open>An environment whose external API is down.\<close>

definition exDownEnv :: env where
  "exDownEnv = \<lparr>questionDocs = exDocs,
            sample = (\<lambda>ds n. if n < 0 then None else Some (take (nat n) ds)),
            apiGet = (\<lambda>n c. None),
            shuffle = rev\<rparr>"

text \<open>A one-player room whose game is over.\<close>

definition exDone :: store where
  "exDone = \<lparr>rooms = [\<lparr>code = ''7777'', host = ''carol'', category = ''Science'', quizCount = 2,
       maxPlayers = 4,
       players = [\<lparr>pl_id = ''carol'', pl_name = ''Carol'', ready = True, pl_score = 0\<rparr>],
       isPublic = False, status = completed, createdAt = 3\<rparr>],
     games = [\<lparr>roomCode = ''7777'', questions = exQuestions, currentQuestion = 2,
       scores = [\<lparr>playerId = ''carol'', playerName = ''Carol'', score = 0,
         answers = [\<lparr>questionIndex = 2, answer = ''Mars'', isCorrect = False, timeTaken = 100\<rparr>]\<rparr>],
       startedAt = 4, endedAt = Some 8\<rparr>]\<rparr>"

text \<open>A one-player room waiting for its first game, asking for three questions.\<close>

definition exWaiting :: store where
  "exWaiting = \<lparr>rooms = [\<lparr>code = ''4321'', host = ''carol'', category = ''Science'', quizCount = 3,
       maxPlayers = 4,
       players = [\<lparr>pl_id = ''carol'', pl_name = ''Carol'', ready = True, pl_score = 0\<rparr>],
       isPublic = False, status = waiting, createdAt = 3\<rparr>],
     games = []\<rparr>"

section \<open>Facts about the helpers\<close>









subsection \<open>submitAnswer, path by path\<close>


lemma submitAnswer_accept:
  assumes "find (\<lambda>g. roomCode g = rc) (games st) = Some g"
    and "endedAt g = None"
    and "find (\<lambda>s. playerId s = uid) (scores g) = Some ps"
    and "find (\<lambda>a. questionIndex a = qi) (answers ps) = None"
    and "elemAt (questions g) qi = Some q"
  shows "submitAnswer now uid rc qi ans tt st =
     \<lparr>db = fst (barrier now rc qi (pushAnswer uid qi ans tt q g)
                  (saveGame (pushAnswer uid qi ans tt q g) st)),
      emitted = (rc, AnswerReceived uid qi (correctAnswer q = ans))
                # snd (barrier now rc qi (pushAnswer uid qi ans tt q g)
                         (saveGame (pushAnswer uid qi ans tt q g) st)),
      logged = []\<rparr>"
  using assms by (simp add: submitAnswer_def Let_def split: prod.splits)









lemma barrier_emitted:
  "snd (barrier now rc qi g st) =
     (if allAnswered g qi then
        (if currentQuestion g < int (length (questions g)) - 1
         then [(rc, NextQuestion (currentQuestion g + 1)
                      (elemAt (questions g) (currentQuestion g + 1)))]
         else [(rc, GameEnded (sortScores (scores g)))])
      else [])"
  by (simp add: barrier_def Let_def)


lemma digits_small: "n < 10 \<Longrightarrow> digits n = [digitChar n]"
  by (subst digits.simps) simp

lemma digits_step: "10 \<le> n \<Longrightarrow> digits n = digits (n div 10) @ [digitChar (n mod 10)]"
  by (subst digits.simps) simp

lemma newCode_half: "newCode (1/2) = ''5500''"
  by (simp add: newCode_def toString_def digits_step digits_small digitChar_def)

lemma newCode_zero: "newCode 0 = ''1000''"
  by (simp add: newCode_def toString_def digits_step digits_small digitChar_def)

lemma joinRoom_full:
  assumes "find (\<lambda>r. code r = c) (rooms st) = Some r" and "maxPlayers r \<le> int (length (players r))"
  shows "joinRoom uid pname c st = \<lparr>rdb = st, remitted = [], response = Failure 400 ''Room is full''\<rparr>"
  using assms by (simp add: joinRoom_def)

lemma set_updateFirst: "set (updateFirst P f xs) \<subseteq> set xs \<union> f ` {x \<in> set xs. P x}"
  by (induction xs) auto

lemma joinRoom_capacity:
  assumes "\<forall>r \<in> set (rooms st). int (length (players r)) \<le> maxPlayers r"
  shows "\<forall>r \<in> set (rooms (rdb (joinRoom uid pname c st))). int (length (players r)) \<le> maxPlayers r"
proof (cases "find (\<lambda>r. code r = c) (rooms st)")
  case None
  then show ?thesis using assms by (simp add: joinRoom_def)
next
  case (Some r)
  show ?thesis
  proof (cases "int (length (players r)) \<ge> maxPlayers r \<or> status r \<noteq> waiting")
    case True
    then show ?thesis using Some assms by (auto simp: joinRoom_def)
  next
    case False
    let ?r1 = "r\<lparr>players := players r @ [newPlayer uid pname]\<rparr>"
    have ok: "int (length (players ?r1)) \<le> maxPlayers ?r1" using False by simp
    have "rooms (rdb (joinRoom uid pname c st)) = updateFirst (\<lambda>x. code x = code ?r1) (\<lambda>_. ?r1) (rooms st)"
      using Some False by (simp add: joinRoom_def saveRoom_def Let_def)
    then show ?thesis using set_updateFirst[of "\<lambda>x. code x = code ?r1" "\<lambda>_. ?r1" "rooms st"] assms ok
      by auto
  qed
qed

lemma onStartGame_guard:
  "find (\<lambda>r. code r = rc) (rooms st) = Some r \<Longrightarrow> status r \<noteq> waiting \<Longrightarrow>
   onStartGame e now uid rc st = \<lparr>db = st, emitted = [], logged = []\<rparr>"
  by (simp add: onStartGame_def silent_def)

lemma fetchQuestions_cases:
  "fetchQuestions e cat cnt =
     (case sample e (filter (\<lambda>d. q_category d = cat) (questionDocs e)) cnt of
        None \<Rightarrow> Inl FetchFailed
      | Some ds \<Rightarrow>
          if int (length ds) < cnt then
            (case apiGet e cnt (getCategoryId cat) of
               None \<Rightarrow> Inl FetchFailed
             | Some results \<Rightarrow> Inr (take (nat cnt) (map project ds @ map (fromApi e) results)))
          else Inr (map project ds))"
  by (auto simp: fetchQuestions_def aggregate_def slice0_def split: option.splits)

lemma options_project:
  "f_options (project d) = [q_correctAnswer d] @ incorrectAnswers d"
  "f_correctAnswer (project d) = q_correctAnswer d"
  "hd (f_options (project d)) = f_correctAnswer (project d)"
  by (simp_all add: project_def)

lemma floor_code_range:
  fixes rnd :: real
  assumes "0 \<le> rnd" and "rnd < 1"
  shows "1000 \<le> \<lfloor>1000 + rnd * 9000\<rfloor>" and "\<lfloor>1000 + rnd * 9000\<rfloor> \<le> 9999"
proof -
  have "0 \<le> rnd * 9000" using assms by simp
  then show "1000 \<le> \<lfloor>1000 + rnd * 9000\<rfloor>" by linarith
  have "rnd * 9000 < 9000" using assms by simp
  then have "1000 + rnd * 9000 < 10000" by simp
  then have "\<lfloor>1000 + rnd * 9000\<rfloor> < 10000" by linarith
  then show "\<lfloor>1000 + rnd * 9000\<rfloor> \<le> 9999" by simp
qed

lemma length_digits_four: "1000 \<le> n \<Longrightarrow> n \<le> 9999 \<Longrightarrow> length (digits n) = 4"
proof -
  assume a: "1000 \<le> n" "n \<le> 9999"
  have 1: "digits n = digits (n div 10) @ [digitChar (n mod 10)]"
    using a by (intro digits_step) simp
  have 2: "digits (n div 10) = digits (n div 10 div 10) @ [digitChar (n div 10 mod 10)]"
    using a by (intro digits_step) simp
  have 3: "digits (n div 10 div 10) = digits (n div 10 div 10 div 10) @ [digitChar (n div 10 div 10 mod 10)]"
    using a by (intro digits_step) simp
  have 4: "digits (n div 10 div 10 div 10) = [digitChar (n div 10 div 10 div 10)]"
    using a by (intro digits_small) simp
  show ?thesis by (simp add: 1 2 3 4)
qed

lemma length_newCode:
  assumes "0 \<le> rnd" and "rnd < 1"
  shows "length (newCode rnd) = 4"
proof -
  let ?n = "\<lfloor>1000 + rnd * 9000\<rfloor>"
  have lo: "1000 \<le> ?n" and hi: "?n \<le> 9999"
    using floor_code_range[OF assms] by blast+
  have "1000 \<le> nat ?n" and "nat ?n \<le> 9999" using lo hi by linarith+
  then have "length (digits (nat ?n)) = 4" by (rule length_digits_four)
  moreover have "\<not> ?n < 0" using lo by linarith
  ultimately show ?thesis by (simp only: newCode_def toString_def if_False)
qed

section \<open>The claims\<close>








text \<open>
  C4, on the input where the code departs from it. \<open>POST /api/rooms\<close> creates a public
  \<open>Random\<close> room with \<open>maxPlayers = 1\<close>; the quick-match route, which never reads
  \<open>maxPlayers\<close>, then adds a second player to it. The join-by-code route does make the
  check (\<open>joinRoom_full\<close>, \<open>joinRoom_capacity\<close>).
\<close>


theorem quickMatch_exceeds_capacity:
  "map (\<lambda>r. (code r, maxPlayers r, map pl_id (players r)))
     (rooms (rdb (quickMatch 0 6 ''erin'' ''Erin''
        (rdb (createRoom (1/2) 5 ''dave'' ''Random'' 5 1 ''Dave'' True \<lparr>rooms = [], games = []\<rparr>)))))
   = [(''5500'', 1, [''dave'', ''erin''])]"
  by (simp add: createRoom_def quickMatch_def quickMatchQuery_def newPlayer_def newCode_half Let_def)

text \<open>
  C5, on the input where the code departs from it. The \<open>startGame\<close> event is guarded by
  \<open>status = waiting\<close> (\<open>onStartGame_guard\<close>), the auto-start of \<open>playerReady\<close> is not: in a
  one-player room whose game is over, a \<open>playerReady\<close> event starts a second game for the
  same code and takes the room from \<open>completed\<close> back to \<open>in_progress\<close>.
\<close>


theorem playerReady_restarts:
  "map status (rooms exDone) = [completed] \<and>
   map roomCode (games exDone) = [''7777''] \<and>
   map status (rooms (db (playerReady exEnv 20 ''carol'' ''7777'' True exDone))) = [in_progress] \<and>
   map roomCode (games (db (playerReady exEnv 20 ''carol'' ''7777'' True exDone))) = [''7777'', ''7777''] \<and>
   map startedAt (games (db (playerReady exEnv 20 ''carol'' ''7777'' True exDone))) = [4, 20]"
  by (simp add: exDone_def exEnv_def exDocs_def playerReady_def startGame_def fetchQuestions_def
      aggregate_def saveRoom_def newGame_def project_def Let_def)

text \<open>
  C10. Every question \<open>fetchQuestions\<close> returns from the local store (the positions below
  the number of sampled documents) has as options the document's correct answer followed
  by its incorrect answers, unshuffled, so its first option is its correct answer; the
  questions after them come from the external API, and their options are the shuffle of
  the decoded incorrect answers followed by the decoded correct answer.
\<close>


theorem fetchQuestions_options:
  assumes "fetchQuestions e cat cnt = Inr qs"
  shows "\<exists>ds. sample e (filter (\<lambda>d. q_category d = cat) (questionDocs e)) cnt = Some ds \<and>
     (\<forall>i < length qs. i < length ds \<longrightarrow>
        f_options (qs ! i) = [q_correctAnswer (ds ! i)] @ incorrectAnswers (ds ! i) \<and>
        f_correctAnswer (qs ! i) = q_correctAnswer (ds ! i) \<and>
        hd (f_options (qs ! i)) = f_correctAnswer (qs ! i)) \<and>
     (\<forall>i < length qs. length ds \<le> i \<longrightarrow>
        (\<exists>results. apiGet e cnt (getCategoryId cat) = Some results \<and>
           i - length ds < length results \<and>
           f_options (qs ! i) =
             shuffle e (map decodeHtmlEntities (incorrect_answers (results ! (i - length ds)))
                        @ [decodeHtmlEntities (correct_answer (results ! (i - length ds)))])))"
proof (cases "sample e (filter (\<lambda>d. q_category d = cat) (questionDocs e)) cnt")
  case None
  then show ?thesis using assms by (simp add: fetchQuestions_cases)
next
  case (Some ds)
  show ?thesis
  proof (cases "int (length ds) < cnt")
    case False
    then have "qs = map project ds" using assms Some by (simp add: fetchQuestions_cases)
    then show ?thesis using Some by (simp add: options_project)
  next
    case True
    then obtain results where api: "apiGet e cnt (getCategoryId cat) = Some results"
      and qs: "qs = take (nat cnt) (map project ds @ map (fromApi e) results)"
      using assms Some by (auto simp: fetchQuestions_cases split: option.splits)
    have loc: "\<And>i. i < length qs \<Longrightarrow> i < length ds \<Longrightarrow> qs ! i = project (ds ! i)"
      by (simp add: qs nth_append)
    have ext: "\<And>i. i < length qs \<Longrightarrow> length ds \<le> i \<Longrightarrow>
        i - length ds < length results \<and> qs ! i = fromApi e (results ! (i - length ds))"
      by (auto simp: qs nth_append)
    show ?thesis using Some api loc ext by (simp add: options_project fromApi_def)
  qed
qed

theorem fetchQuestions_options_witness:
  "\<exists>qs. fetchQuestions exEnv ''Science'' 3 = Inr qs \<and>
     map f_options qs = [[''Jupiter'', ''Mars'', ''Venus'', ''Earth''],
                         [''Water'', ''Salt'', ''Gold'', ''Air''],
                         [''Shakespeare'', ''Kyd'', ''Jonson & Co'', ''Marlowe'']] \<and>
     map f_correctAnswer qs = [''Jupiter'', ''Water'', ''Shakespeare'']"
proof -
  let ?qs = "[project (hd exDocs), project (hd (tl exDocs)), fromApi exEnv (hd exApi)]"
  have v: "fetchQuestions exEnv ''Science'' 3 = Inr ?qs"
    by (simp add: fetchQuestions_cases exEnv_def exDocs_def exApi_def getCategoryId_def)
  have d: "map decodeHtmlEntities [''Marlowe'', ''Jonson &amp; Co'', ''Kyd'', ''Shakespeare'']
      = [''Marlowe'', ''Jonson & Co'', ''Kyd'', ''Shakespeare'']"
    by (simp add: decodeHtmlEntities_def replaceAll_def)
  have api: "f_options (fromApi exEnv (hd exApi)) = [''Shakespeare'', ''Kyd'', ''Jonson & Co'', ''Marlowe'']"
    "f_correctAnswer (fromApi exEnv (hd exApi)) = ''Shakespeare''"
    using d by (simp_all add: fromApi_def exApi_def exEnv_def)
  obtain ds where ds: "sample exEnv (filter (\<lambda>d. q_category d = ''Science'') (questionDocs exEnv)) 3 = Some ds"
    and loc: "\<forall>i < length ?qs. i < length ds \<longrightarrow>
        f_options (?qs ! i) = [q_correctAnswer (ds ! i)] @ incorrectAnswers (ds ! i) \<and>
        f_correctAnswer (?qs ! i) = q_correctAnswer (ds ! i) \<and>
        hd (f_options (?qs ! i)) = f_correctAnswer (?qs ! i)"
    using fetchQuestions_options[OF v] by blast
  have dsv: "ds = [hd exDocs, hd (tl exDocs)]"
    using ds by (simp add: exEnv_def exDocs_def)
  have l0: "f_options (project (hd exDocs)) = [''Jupiter'', ''Mars'', ''Venus'', ''Earth'']"
    "f_correctAnswer (project (hd exDocs)) = ''Jupiter''"
    using loc[rule_format, of 0] by (simp_all add: dsv) (simp_all add: exDocs_def)
  have l1: "f_options (project (hd (tl exDocs))) = [''Water'', ''Salt'', ''Gold'', ''Air'']"
    "f_correctAnswer (project (hd (tl exDocs))) = ''Water''"
    using loc[rule_format, of 1] by (simp_all add: dsv) (simp_all add: exDocs_def)
  show ?thesis by (simp add: v l0 l1 api)
qed

text \<open>
  C6, as the code has it. \<open>gameStarted\<close> carries index 0, the stored first question as it
  is, correct answer included, and the number of questions; \<open>nextQuestion\<close> carries the new
  index and the stored question at that index, again whole, and no question count;
  \<open>answerReceived\<close> carries the player id, the question index and the correctness only.
\<close>


theorem emitted_payloads:
  "(fetchQuestions e (category r) (quizCount r) = Inr qs \<longrightarrow>
      emitted (startGame e now r st) =
        [(code r, GameStarted 0 (elemAt (questions (newGame now r qs)) 0) (int (length qs)))] \<and>
      (qs \<noteq> [] \<longrightarrow>
         (\<exists>q0. elemAt (questions (newGame now r qs)) 0 = Some q0 \<and>
               qtext q0 = f_text (hd qs) \<and> options q0 = f_options (hd qs) \<and>
               correctAnswer q0 = f_correctAnswer (hd qs)))) \<and>
   (find (\<lambda>g. roomCode g = rc) (games st) = Some g \<and> endedAt g = None \<and>
    find (\<lambda>s. playerId s = uid) (scores g) = Some ps \<and>
    find (\<lambda>a. questionIndex a = qi) (answers ps) = None \<and>
    elemAt (questions g) qi = Some q \<longrightarrow>
      emitted (submitAnswer now uid rc qi ans tt st) =
        (rc, AnswerReceived uid qi (correctAnswer q = ans)) #
        (if allAnswered (pushAnswer uid qi ans tt q g) qi then
           (if currentQuestion g < int (length (questions g)) - 1
            then [(rc, NextQuestion (currentQuestion g + 1)
                         (elemAt (questions g) (currentQuestion g + 1)))]
            else [(rc, GameEnded (sortScores (scores (pushAnswer uid qi ans tt q g))))])
         else []))"
proof -
  have 1: "fetchQuestions e (category r) (quizCount r) = Inr qs \<longrightarrow>
      emitted (startGame e now r st) =
        [(code r, GameStarted 0 (elemAt (questions (newGame now r qs)) 0) (int (length qs)))]"
    by (simp add: startGame_def Let_def newGame_def)
  have 2: "qs \<noteq> [] \<longrightarrow>
         (\<exists>q0. elemAt (questions (newGame now r qs)) 0 = Some q0 \<and>
               qtext q0 = f_text (hd qs) \<and> options q0 = f_options (hd qs) \<and>
               correctAnswer q0 = f_correctAnswer (hd qs))"
    by (cases qs) (simp_all add: newGame_def elemAt_def)
  have 3: "find (\<lambda>g. roomCode g = rc) (games st) = Some g \<and> endedAt g = None \<and>
    find (\<lambda>s. playerId s = uid) (scores g) = Some ps \<and>
    find (\<lambda>a. questionIndex a = qi) (answers ps) = None \<and>
    elemAt (questions g) qi = Some q \<longrightarrow>
      emitted (submitAnswer now uid rc qi ans tt st) =
        (rc, AnswerReceived uid qi (correctAnswer q = ans)) #
        (if allAnswered (pushAnswer uid qi ans tt q g) qi then
           (if currentQuestion g < int (length (questions g)) - 1
            then [(rc, NextQuestion (currentQuestion g + 1)
                         (elemAt (questions g) (currentQuestion g + 1)))]
            else [(rc, GameEnded (sortScores (scores (pushAnswer uid qi ans tt q g))))])
         else [])"
  proof
    assume h: "find (\<lambda>g. roomCode g = rc) (games st) = Some g \<and> endedAt g = None \<and>
      find (\<lambda>s. playerId s = uid) (scores g) = Some ps \<and>
      find (\<lambda>a. questionIndex a = qi) (answers ps) = None \<and>
      elemAt (questions g) qi = Some q"
    have "questions (pushAnswer uid qi ans tt q g) = questions g"
      "currentQuestion (pushAnswer uid qi ans tt q g) = currentQuestion g"
      by (simp_all add: pushAnswer_def)
    then show "emitted (submitAnswer now uid rc qi ans tt st) =
        (rc, AnswerReceived uid qi (correctAnswer q = ans)) #
        (if allAnswered (pushAnswer uid qi ans tt q g) qi then
           (if currentQuestion g < int (length (questions g)) - 1
            then [(rc, NextQuestion (currentQuestion g + 1)
                         (elemAt (questions g) (currentQuestion g + 1)))]
            else [(rc, GameEnded (sortScores (scores (pushAnswer uid qi ans tt q g))))])
         else [])"
      using h by (simp add: submitAnswer_accept[of rc st g uid ps qi q] barrier_emitted)
  qed
  show ?thesis using 1 2 3 by blast
qed

theorem emitted_payloads_witness:
  "emitted (startGame exEnv 5 (hd (rooms exDone)) exDone) =
     [(''7777'', GameStarted 0
         (Some \<lparr>qtext = ''Largest planet?'', options = [''Jupiter'', ''Mars'', ''Venus'', ''Earth''],
                correctAnswer = ''Jupiter'', timeLimit = 15000\<rparr>) 2)] \<and>
   emitted (submitAnswer 9 ''bob'' ''1234'' 0 ''Rome'' 700 exAnswered) =
     [(''1234'', AnswerReceived ''bob'' 0 False),
      (''1234'', NextQuestion 1
         (Some \<lparr>qtext = ''2 + 2?'', options = [''4'', ''3'', ''5'', ''22''],
                correctAnswer = ''4'', timeLimit = 15000\<rparr>))]"
proof -
  let ?r = "hd (rooms exDone)"
  let ?qs = "[project (hd exDocs), project (hd (tl exDocs))]"
  let ?g = "hd (games exAnswered)"
  have r: "category ?r = ''Science''" "quizCount ?r = 2" "code ?r = ''7777''"
    by (simp_all add: exDone_def)
  have up: "fetchQuestions exEnv (category ?r) (quizCount ?r) = Inr ?qs"
    by (simp add: r fetchQuestions_cases exEnv_def exDocs_def)
  have h: "find (\<lambda>g. roomCode g = ''1234'') (games exAnswered) = Some ?g \<and> endedAt ?g = None \<and>
    find (\<lambda>s. playerId s = ''bob'') (scores ?g) = Some (scores ?g ! 1) \<and>
    find (\<lambda>a. questionIndex a = 0) (answers (scores ?g ! 1)) = None \<and>
    elemAt (questions ?g) 0 = Some (hd exQuestions)"
    by (simp add: exAnswered_def exGame_def exQuestions_def elemAt_def)
  have a: "emitted (startGame exEnv 5 ?r exDone) =
        [(code ?r, GameStarted 0 (elemAt (questions (newGame 5 ?r ?qs)) 0) (int (length ?qs)))]"
    using emitted_payloads[where e = exEnv and r = ?r and qs = ?qs and now = 5 and st = exDone] up
    by blast
  have b: "emitted (submitAnswer 9 ''bob'' ''1234'' 0 ''Rome'' 700 exAnswered) =
        (''1234'', AnswerReceived ''bob'' 0 (correctAnswer (hd exQuestions) = ''Rome'')) #
        (if allAnswered (pushAnswer ''bob'' 0 ''Rome'' 700 (hd exQuestions) ?g) 0 then
           (if currentQuestion ?g < int (length (questions ?g)) - 1
            then [(''1234'', NextQuestion (currentQuestion ?g + 1)
                         (elemAt (questions ?g) (currentQuestion ?g + 1)))]
            else [(''1234'', GameEnded (sortScores (scores (pushAnswer ''bob'' 0 ''Rome'' 700 (hd exQuestions) ?g))))])
         else [])"
    using emitted_payloads[where now = 9 and st = exAnswered and rc = "''1234''" and g = ?g
        and uid = "''bob''" and ps = "scores ?g ! 1" and qi = 0 and q = "hd exQuestions"
        and ans = "''Rome''" and tt = 700] h
    by blast
  show ?thesis
    apply (simp only: a b)
    apply (simp add: r newGame_def elemAt_def project_def exDocs_def exAnswered_def exGame_def
        exQuestions_def pushAnswer_def recordAnswer_def allAnswered_def)
    done
qed

text \<open>
  The claim as stated fails: the \<open>gameStarted\<close> payload of a started game holds the
  question's correct answer.
\<close>


theorem gameStarted_leak_counterexample:
  "emitted (startGame exEnv 5 (hd (rooms exWaiting)) exWaiting) =
     [(''4321'', GameStarted 0
         (Some \<lparr>qtext = ''Largest planet?'', options = [''Jupiter'', ''Mars'', ''Venus'', ''Earth''],
                correctAnswer = ''Jupiter'', timeLimit = 15000\<rparr>) 3)]"
  by (simp add: exWaiting_def exEnv_def exDocs_def exApi_def startGame_def fetchQuestions_cases
      saveRoom_def newGame_def project_def elemAt_def Let_def)

text \<open>
  C7, as the code has it. \<open>startGame\<close> fails exactly when \<open>fetchQuestions\<close> throws, that is
  when the store's query fails or, the store having given fewer than \<open>quizCount\<close>
  questions, the request to the external API fails; then \<open>gameError\<close> goes to the room,
  no game is created and the store, the room's status included, is unchanged. Otherwise a
  game with \<open>currentQuestion = 0\<close> is appended and the room becomes \<open>in_progress\<close>,
  however many questions were assembled: after the fallback the game has
  \<open>min (stored + fetched) quizCount\<close> questions, which may be fewer than \<open>quizCount\<close>.
\<close>


theorem startGame_outcome:
  "(fetchQuestions e (category r) (quizCount r) = Inl err \<longrightarrow>
      startGame e now r st =
        \<lparr>db = st, emitted = [(code r, GameError ''Failed to start game'')], logged = [err]\<rparr>) \<and>
   (fetchQuestions e (category r) (quizCount r) = Inr qs \<longrightarrow>
      games (db (startGame e now r st)) = games st @ [newGame now r qs] \<and>
      rooms (db (startGame e now r st)) =
        updateFirst (\<lambda>x. code x = code r) (\<lambda>_. r\<lparr>status := in_progress\<rparr>) (rooms st) \<and>
      logged (startGame e now r st) = [] \<and>
      currentQuestion (newGame now r qs) = 0 \<and>
      length (questions (newGame now r qs)) = length qs) \<and>
   ((\<exists>err. fetchQuestions e (category r) (quizCount r) = Inl err) \<longleftrightarrow>
      (case sample e (filter (\<lambda>d. q_category d = category r) (questionDocs e)) (quizCount r) of
         None \<Rightarrow> True
       | Some ds \<Rightarrow> int (length ds) < quizCount r \<and>
                   apiGet e (quizCount r) (getCategoryId (category r)) = None)) \<and>
   (fetchQuestions e (category r) (quizCount r) = Inr qs \<longrightarrow>
      (\<exists>ds. sample e (filter (\<lambda>d. q_category d = category r) (questionDocs e)) (quizCount r)
              = Some ds \<and>
         (if int (length ds) < quizCount r
          then \<exists>results. apiGet e (quizCount r) (getCategoryId (category r)) = Some results \<and>
                 length qs = min (length ds + length results) (nat (quizCount r))
          else qs = map project ds)))"
proof -
  have 1: "fetchQuestions e (category r) (quizCount r) = Inl err \<longrightarrow>
      startGame e now r st =
        \<lparr>db = st, emitted = [(code r, GameError ''Failed to start game'')], logged = [err]\<rparr>"
    by (simp add: startGame_def)
  have 2: "fetchQuestions e (category r) (quizCount r) = Inr qs \<longrightarrow>
      games (db (startGame e now r st)) = games st @ [newGame now r qs] \<and>
      rooms (db (startGame e now r st)) =
        updateFirst (\<lambda>x. code x = code r) (\<lambda>_. r\<lparr>status := in_progress\<rparr>) (rooms st) \<and>
      logged (startGame e now r st) = [] \<and>
      currentQuestion (newGame now r qs) = 0 \<and>
      length (questions (newGame now r qs)) = length qs"
    by (simp add: startGame_def Let_def saveRoom_def newGame_def)
  have 3: "(\<exists>err. fetchQuestions e (category r) (quizCount r) = Inl err) \<longleftrightarrow>
      (case sample e (filter (\<lambda>d. q_category d = category r) (questionDocs e)) (quizCount r) of
         None \<Rightarrow> True
       | Some ds \<Rightarrow> int (length ds) < quizCount r \<and>
                   apiGet e (quizCount r) (getCategoryId (category r)) = None)"
    by (auto simp: fetchQuestions_cases split: option.splits)
  have 4: "fetchQuestions e (category r) (quizCount r) = Inr qs \<longrightarrow>
      (\<exists>ds. sample e (filter (\<lambda>d. q_category d = category r) (questionDocs e)) (quizCount r)
              = Some ds \<and>
         (if int (length ds) < quizCount r
          then \<exists>results. apiGet e (quizCount r) (getCategoryId (category r)) = Some results \<and>
                 length qs = min (length ds + length results) (nat (quizCount r))
          else qs = map project ds))"
    by (auto simp: fetchQuestions_cases split: option.splits)
  show ?thesis using 1 2 3 4 by blast
qed

theorem startGame_outcome_witness:
  "startGame exDownEnv 5 (hd (rooms exWaiting)) exWaiting =
     \<lparr>db = exWaiting, emitted = [(''4321'', GameError ''Failed to start game'')],
      logged = [FetchFailed]\<rparr> \<and>
   map (\<lambda>g. (roomCode g, currentQuestion g, length (questions g)))
     (games (db (startGame exEnv 5 (hd (rooms exWaiting)) exWaiting))) = [(''4321'', 0, 3)] \<and>
   map status (rooms (db (startGame exEnv 5 (hd (rooms exWaiting)) exWaiting))) = [in_progress]"
proof -
  let ?r = "hd (rooms exWaiting)"
  let ?qs = "[project (hd exDocs), project (hd (tl exDocs)), fromApi exEnv (hd exApi)]"
  have r: "category ?r = ''Science''" "quizCount ?r = 3" "code ?r = ''4321''"
    by (simp_all add: exWaiting_def)
  have down: "fetchQuestions exDownEnv (category ?r) (quizCount ?r) = Inl FetchFailed"
    by (simp add: r fetchQuestions_cases exDownEnv_def exDocs_def)
  have up: "fetchQuestions exEnv (category ?r) (quizCount ?r) = Inr ?qs"
    by (simp add: r fetchQuestions_cases exEnv_def exDocs_def exApi_def)
  have a: "startGame exDownEnv 5 ?r exWaiting =
     \<lparr>db = exWaiting, emitted = [(''4321'', GameError ''Failed to start game'')],
      logged = [FetchFailed]\<rparr>"
    using startGame_outcome[where e = exDownEnv and r = ?r and err = FetchFailed and now = 5
        and st = exWaiting] down by (simp add: r)
  have b: "games (db (startGame exEnv 5 ?r exWaiting)) = games exWaiting @ [newGame 5 ?r ?qs]"
    "rooms (db (startGame exEnv 5 ?r exWaiting)) =
        updateFirst (\<lambda>x. code x = code ?r) (\<lambda>_. ?r\<lparr>status := in_progress\<rparr>) (rooms exWaiting)"
    "currentQuestion (newGame 5 ?r ?qs) = 0"
    "length (questions (newGame 5 ?r ?qs)) = length ?qs"
    using startGame_outcome[where e = exEnv and r = ?r and now = 5 and st = exWaiting
        and qs = ?qs] up by blast+
  have c: "roomCode (newGame 5 ?r ?qs) = ''4321''" by (simp add: newGame_def r)
  show ?thesis
    apply (simp only: a b)
    apply (simp add: b c)
    apply (simp add: exWaiting_def)
    done
qed

text \<open>
  The claim as stated fails: with no stored question and an API that answers with an
  empty list, a room asking for three questions gets a game of zero questions, no error,
  and moves to \<open>in_progress\<close>.
\<close>


theorem startGame_short_counterexample:
  "quizCount (hd (rooms exWaiting)) = 3 \<and>
   logged (startGame exEmptyEnv 5 (hd (rooms exWaiting)) exWaiting) = [] \<and>
   emitted (startGame exEmptyEnv 5 (hd (rooms exWaiting)) exWaiting) = [(''4321'', GameStarted 0 None 0)] \<and>
   map (\<lambda>g. (roomCode g, length (questions g))) (games (db (startGame exEmptyEnv 5 (hd (rooms exWaiting)) exWaiting))) = [(''4321'', 0)] \<and>
   map status (rooms (db (startGame exEmptyEnv 5 (hd (rooms exWaiting)) exWaiting))) = [in_progress]"
  by (simp add: exWaiting_def exEmptyEnv_def startGame_def fetchQuestions_def aggregate_def slice0_def
      saveRoom_def newGame_def elemAt_def Let_def)

text \<open>
  C9, as the code has it. The room created by \<open>POST /api/rooms\<close>, and the one quick-match
  creates when no open room is found, is appended under the code
  \<open>floor (1000 + rnd * 9000)\<close> written in decimal, for the draw \<open>rnd\<close> of \<open>Math.random()\<close>,
  whatever codes the stored rooms have: there is no uniqueness check and no retry. For a
  draw in \<open>[0, 1)\<close> the code is a four-digit number from 1000 to 9999.
\<close>


theorem createRoom_code:
  "(\<exists>r. rooms (rdb (createRoom rnd now uid cat qc mp pn pub st)) = rooms st @ [r] \<and>
        response (createRoom rnd now uid cat qc mp pn pub st) = Json r \<and>
        code r = toString \<lfloor>1000 + rnd * 9000\<rfloor> \<and>
        players r = [newPlayer uid pn] \<and> status r = waiting) \<and>
   (find quickMatchQuery (rooms st) = None \<longrightarrow>
      (\<exists>r. rooms (rdb (quickMatch rnd now uid pn st)) = rooms st @ [r] \<and>
           response (quickMatch rnd now uid pn st) = Json r \<and>
           code r = toString \<lfloor>1000 + rnd * 9000\<rfloor>)) \<and>
   (0 \<le> rnd \<and> rnd < 1 \<longrightarrow>
      1000 \<le> \<lfloor>1000 + rnd * 9000\<rfloor> \<and> \<lfloor>1000 + rnd * 9000\<rfloor> \<le> 9999 \<and>
      length (newCode rnd) = 4)"
  using floor_code_range[of rnd] length_newCode[of rnd]
  by (simp add: createRoom_def quickMatch_def newCode_def Let_def)

theorem createRoom_code_witness:
  "map code (rooms (rdb (createRoom (1/2) 6 ''erin'' ''Science'' 5 2 ''Erin'' False
        \<lparr>rooms = [exRoom\<lparr>code := ''5500''\<rparr>], games = []\<rparr>))) = [''5500'', ''5500''] \<and>
   map code (rooms (rdb (quickMatch (1/2) 6 ''erin'' ''Erin''
        \<lparr>rooms = [exRoom\<lparr>code := ''5500''\<rparr>], games = []\<rparr>))) = [''5500'', ''5500'']"
proof -
  let ?st = "\<lparr>rooms = [exRoom\<lparr>code := ''5500''\<rparr>], games = []\<rparr>"
  have n: "find quickMatchQuery (rooms ?st) = None"
    by (simp add: quickMatchQuery_def exRoom_def)
  have r: "(0::real) \<le> 1/2 \<and> (1/2::real) < 1" by simp
  have c: "toString \<lfloor>1000 + (1/2::real) * 9000\<rfloor> = ''5500''"
    using newCode_half by (simp add: newCode_def)
  show ?thesis
    using createRoom_code[of "1/2" 6 "''erin''" "''Science''" 5 2 "''Erin''" False ?st] n r c
    by (auto simp: exRoom_def)
qed

text \<open>
  The claim as stated fails: two \<open>createRoom\<close> calls with the same draw leave two waiting
  rooms with the same code.
\<close>


theorem createRoom_collision_counterexample:
  "map code (rooms (rdb (createRoom 0 6 ''erin'' ''Science'' 5 2 ''Erin'' False
        (rdb (createRoom 0 5 ''dave'' ''History'' 5 2 ''Dave'' True \<lparr>rooms = [], games = []\<rparr>)))))
   = [''1000'', ''1000'']"
  by (simp add: createRoom_def newCode_zero Let_def)

end
